theory Spec2Isabelle
  imports Main "HOL-Library.Word"
begin

section \<open>FITS headers as Python sees them\<close>

text \<open>
  The translator of \<^verbatim>\<open>gen3/translators/necam.py\<close> reads one FITS header, a
  \<^verbatim>\<open>dict\<close>-like object from keyword to card value. A card value is a Python
  \<^verbatim>\<open>str\<close>, \<^verbatim>\<open>int\<close>, \<^verbatim>\<open>bool\<close>, \<^verbatim>\<open>float\<close> or the
  undefined value (\<^verbatim>\<open>None\<close>). FITS restricts card text to ASCII, so a
  \<open>string\<close> of 8-bit characters holds every card string, and one \<open>char\<close> is one
  Python character. A float is kept as its IEEE-754 binary64 pattern; nothing below
  computes with it.
\<close>

datatype hval =
    HStr string
  | HInt int
  | HBool bool
  | HFloat "64 word"
  | HNone

type_synonym fits_header = "string \<Rightarrow> hval option"

text \<open>
  The exceptions the translator can raise by itself. \<open>KeyError\<close> carries the key
  that was looked up. \<open>TypeError\<close> and \<open>ValueError\<close> come from slicing and formatting
  a value of the wrong type, and from the host's constructors.
\<close>

datatype py_error =
    KeyError string
  | TypeError
  | ValueError
  | AttributeError string

text \<open>\<^verbatim>\<open>key in header\<close> and \<^verbatim>\<open>header[key]\<close>; the latter raises on a missing key.\<close>

definition contains :: "fits_header \<Rightarrow> string \<Rightarrow> bool" where
  "contains hdr key = (hdr key \<noteq> None)"

definition getitem :: "fits_header \<Rightarrow> string \<Rightarrow> py_error + hval" where
  "getitem hdr key = (case hdr key of None \<Rightarrow> Inl (KeyError key) | Some v \<Rightarrow> Inr v)"

text \<open>
  \<^verbatim>\<open>value == "literal"\<close>: a \<^verbatim>\<open>str\<close> compares by its characters, and every
  other card type is unequal to a \<^verbatim>\<open>str\<close> (the comparison never raises).
\<close>

definition py_eq_str :: "hval \<Rightarrow> string \<Rightarrow> bool" where
  "py_eq_str v lit = (case v of HStr s \<Rightarrow> s = lit | _ \<Rightarrow> False)"

section \<open>The recognition predicate\<close>

text \<open>
  \<^verbatim>\<open>
  @classmethod
  def can_translate(cls, header, filename=None):
      if "INSTRUME" in header:
          if header["INSTRUME"] == "NECAM":
              return True
      return False
  \<close>
  The result is a sum so that a raise, if the body had one, would be a value.
\<close>

definition can_translate :: "fits_header \<Rightarrow> string option \<Rightarrow> py_error + bool" where
  "can_translate hdr filename =
     (if contains hdr ''INSTRUME'' then
        (case getitem hdr ''INSTRUME'' of
           Inl e \<Rightarrow> Inl e
         | Inr v \<Rightarrow> if py_eq_str v ''NECAM'' then Inr True else Inr False)
      else Inr False)"

section \<open>The host: astropy and the translator base class\<close>

text \<open>
  The translator builds its results with astropy (\<^verbatim>\<open>Time\<close>, \<^verbatim>\<open>SkyCoord\<close>,
  \<^verbatim>\<open>Quantity\<close>, the \<^verbatim>\<open>+\<close> of a time and a duration). None of that is code of
  the repository, so the host's operations are parameters: a record of functions over an
  arbitrary type \<open>'o\<close> of host objects, each of which may raise.
\<close>

datatype py_unit = U_s | U_hourangle | U_deg | U_K | U_hPa

text \<open>What an accessor returns: a plain Python value, or a host object.\<close>

datatype 'o pyval = Plain hval | Host 'o

record 'o host =
  Time :: "string \<Rightarrow> string \<Rightarrow> string \<Rightarrow> py_error + 'o"
  SkyCoord :: "hval \<Rightarrow> hval \<Rightarrow> string \<Rightarrow> py_unit \<times> py_unit \<Rightarrow> py_error + 'o"
  Quantity :: "hval \<Rightarrow> py_unit \<Rightarrow> py_error + 'o"
  py_add :: "'o pyval \<Rightarrow> 'o pyval \<Rightarrow> py_error + 'o pyval"

text \<open>
  \<open>Time H val fmt scale\<close> is \<^verbatim>\<open>Time(val, format=fmt, scale=scale)\<close>,
  \<open>SkyCoord H ra dec frame unit\<close> is \<^verbatim>\<open>SkyCoord(ra, dec, frame=frame, unit=unit)\<close>,
  \<open>Quantity H v unit\<close> is the value \<open>v\<close> with \<open>unit\<close> attached, and \<open>py_add H a b\<close>
  is \<^verbatim>\<open>a + b\<close>.

  A translator object holds the header it was made for and the host's translation
  cache. The third field is a ghost: the names of the method bodies that have been
  entered, oldest first. The source has no such field; it is here so that "the
  derivation was invoked" is something a theorem can count.
\<close>

record 'o translator =
  header :: fits_header
  translation_cache :: "string \<Rightarrow> 'o pyval option"
  invoked :: "string list"

type_synonym 'o accessor = "'o translator \<Rightarrow> (py_error + 'o pyval) \<times> 'o translator"

text \<open>
  Modelled from the spec: the constructor of the host's base class, which is not part
  of the sources. The spec speaks of "a single stateless translator object wrapping one
  FITS header per invocation": a new translator holds its header, and has nothing
  cached and nothing entered yet.
\<close>

definition new_translator :: "fits_header \<Rightarrow> 'o translator" where
  "new_translator hdr = \<lparr>header = hdr, translation_cache = Map.empty, invoked = []\<rparr>"

definition enter :: "string \<Rightarrow> 'o translator \<Rightarrow> 'o translator" where
  "enter name self = self\<lparr>invoked := invoked self @ [name]\<rparr>"

text \<open>
  Modelled from the spec: the host's decorator \<^verbatim>\<open>cache_translation\<close>, imported from
  \<^verbatim>\<open>..translator\<close> and not part of the sources. The spec says of it that each
  derived accessor's "result is expected to be memoized by the host framework's caching
  discipline so repeated lookups are consistent and cheap". So: a lookup whose name is
  in the cache returns the cached result and does not run the method; otherwise the
  method runs, and the result it returns is stored under its name. A method that raises
  has no result to store.
\<close>

definition cache_translation :: "string \<Rightarrow> 'o accessor \<Rightarrow> 'o accessor" where
  "cache_translation name func self =
     (case translation_cache self name of
        Some v \<Rightarrow> (Inr v, self)
      | None \<Rightarrow>
          (case func self of
             (Inl e, self') \<Rightarrow> (Inl e, self')
           | (Inr v, self') \<Rightarrow>
               (Inr v, self'\<lparr>translation_cache := (translation_cache self')(name \<mapsto> v)\<rparr>)))"

section \<open>The class tables\<close>

text \<open>
  \<^verbatim>\<open>
  _const_map = {"boresight_rotation_coord": "sky",
                "detector_group": None,
                "boresight_airmass": None,
                "boresight_rotation_angle": Angle(90 * u.deg),
                "science_program": None,
                "temperature": 300. * u.K,
                "pressure": 985. * u.hPa,
                "relative_humidity": None,
                "altaz_begin": None,
                "location": None}
  \<close>
  The constants are kept as the expressions the source writes; the two float literals
  are the binary64 patterns of 300.0 and 985.0.
\<close>

datatype const_expr =
    Const_value hval
  | Const_angle int py_unit
  | Const_times hval py_unit

definition const_map :: "(string \<times> const_expr) list" where
  "const_map =
     [(''boresight_rotation_coord'', Const_value (HStr ''sky'')),
      (''detector_group'', Const_value HNone),
      (''boresight_airmass'', Const_value HNone),
      (''boresight_rotation_angle'', Const_angle 90 U_deg),
      (''science_program'', Const_value HNone),
      (''temperature'', Const_times (HFloat 0x4072C00000000000) U_K),
      (''pressure'', Const_times (HFloat 0x408EC80000000000) U_hPa),
      (''relative_humidity'', Const_value HNone),
      (''altaz_begin'', Const_value HNone),
      (''location'', Const_value HNone)]"

text \<open>
  \<^verbatim>\<open>
  _trivial_map = {
      "exposure_id": "RUN",
      "visit_id": "RUN",
      "observation_id": "RUN",
      "detector_exposure_id": "RUN",
      "detector_num": "DETECTOR",
      "detector_serial": "DETECTOR",
      "physical_filter": "FILTER",
      "exposure_time": ("EXPTIME", dict(unit=u.s)),
      "dark_time": ("EXPTIME", dict(unit=u.s)),
      "object": "OBJECT",
      "observation_type": "OBSTYPE"}
  \<close>
  An entry is the header keyword and the unit, if the source gives one.
\<close>

definition trivial_map :: "(string \<times> string \<times> py_unit option) list" where
  "trivial_map =
     [(''exposure_id'', ''RUN'', None),
      (''visit_id'', ''RUN'', None),
      (''observation_id'', ''RUN'', None),
      (''detector_exposure_id'', ''RUN'', None),
      (''detector_num'', ''DETECTOR'', None),
      (''detector_serial'', ''DETECTOR'', None),
      (''physical_filter'', ''FILTER'', None),
      (''exposure_time'', ''EXPTIME'', Some U_s),
      (''dark_time'', ''EXPTIME'', Some U_s),
      (''object'', ''OBJECT'', None),
      (''observation_type'', ''OBSTYPE'', None)]"

text \<open>
  Modelled from the spec: the accessors \<^verbatim>\<open>to_<property>\<close> that the host's base
  class generates from \<^verbatim>\<open>_trivial_map\<close>; the generator is not part of the sources.
  The spec calls them "trivial field accessors (direct keyword copy, optionally with a
  unit attached)", and says that an absent keyword is a lookup error. A property the
  table does not list has no generated accessor.
\<close>

definition trivial_accessor :: "'o host \<Rightarrow> string \<Rightarrow> 'o accessor" where
  "trivial_accessor H property self =
     (case map_of trivial_map property of
        None \<Rightarrow> (Inl (AttributeError property), self)
      | Some (key, unit) \<Rightarrow>
          (case getitem (header self) key of
             Inl e \<Rightarrow> (Inl e, self)
           | Inr v \<Rightarrow>
               (case unit of
                  None \<Rightarrow> (Inr (Plain v), self)
                | Some u \<Rightarrow>
                    (case Quantity H v u of
                       Inl e \<Rightarrow> (Inl e, self)
                     | Inr q \<Rightarrow> (Inr (Host q), self)))))"

definition to_exposure_id :: "'o host \<Rightarrow> 'o accessor" where
  "to_exposure_id H = trivial_accessor H ''exposure_id''"

definition to_visit_id :: "'o host \<Rightarrow> 'o accessor" where
  "to_visit_id H = trivial_accessor H ''visit_id''"

definition to_observation_id :: "'o host \<Rightarrow> 'o accessor" where
  "to_observation_id H = trivial_accessor H ''observation_id''"

definition to_detector_exposure_id :: "'o host \<Rightarrow> 'o accessor" where
  "to_detector_exposure_id H = trivial_accessor H ''detector_exposure_id''"

definition to_detector_num :: "'o host \<Rightarrow> 'o accessor" where
  "to_detector_num H = trivial_accessor H ''detector_num''"

definition to_detector_serial :: "'o host \<Rightarrow> 'o accessor" where
  "to_detector_serial H = trivial_accessor H ''detector_serial''"

definition to_exposure_time :: "'o host \<Rightarrow> 'o accessor" where
  "to_exposure_time H = trivial_accessor H ''exposure_time''"

section \<open>The derived accessors\<close>

text \<open>
  String slices with literal, non-negative bounds, as the source uses them:
  \<^verbatim>\<open>s[a:b]\<close> and \<^verbatim>\<open>s[a:]\<close>. A slice never raises; past the end it is shorter
  or empty. \<^verbatim>\<open>sep.join(parts)\<close> puts \<open>sep\<close> between the parts.
\<close>

definition py_slice :: "string \<Rightarrow> nat \<Rightarrow> nat \<Rightarrow> string" where
  "py_slice s a b = take (b - a) (drop a s)"

definition py_slice_from :: "string \<Rightarrow> nat \<Rightarrow> string" where
  "py_slice_from s a = drop a s"

fun join :: "string \<Rightarrow> string list \<Rightarrow> string" where
  "join sep [] = []"
| "join sep [x] = x"
| "join sep (x # y # ys) = x @ sep @ join sep (y # ys)"

text \<open>
  Each decorated method is two definitions: the function the source writes
  (\<open>_body\<close>), and the method the class ends up with, which is the decorator applied
  to it under the function's own name. Every body first records that it was entered.

  \<^verbatim>\<open>
  @cache_translation
  def to_datetime_begin(self):
      date = self._header["DATE-OBS"]
      date = [date[0:4], date[4:6], date[6:]]
      date = '-'.join(date)
      t = Time(date, format="iso", scale="utc")
      return t
  \<close>
  Only a \<^verbatim>\<open>str\<close> can be sliced; every other card value raises \<open>TypeError\<close> at
  \<^verbatim>\<open>date[0:4]\<close>.
\<close>

definition to_datetime_begin_body :: "'o host \<Rightarrow> 'o accessor" where
  "to_datetime_begin_body H self0 =
     (let self = enter ''to_datetime_begin'' self0 in
      case getitem (header self) ''DATE-OBS'' of
        Inl e \<Rightarrow> (Inl e, self)
      | Inr date \<Rightarrow>
          (case date of
             HStr s \<Rightarrow>
               (let parts = [py_slice s 0 4, py_slice s 4 6, py_slice_from s 6];
                    iso = join ''-'' parts
                in case Time H iso ''iso'' ''utc'' of
                     Inl e \<Rightarrow> (Inl e, self)
                   | Inr t \<Rightarrow> (Inr (Host t), self))
           | _ \<Rightarrow> (Inl TypeError, self)))"

definition to_datetime_begin :: "'o host \<Rightarrow> 'o accessor" where
  "to_datetime_begin H = cache_translation ''to_datetime_begin'' (to_datetime_begin_body H)"

text \<open>
  \<^verbatim>\<open>
  @cache_translation
  def to_datetime_end(self):
      datetime_end = self.to_datetime_begin() + self.to_exposure_time()
      return datetime_end
  \<close>
  The left operand is evaluated first; if it raises, the right one is not evaluated.
\<close>

definition to_datetime_end_body :: "'o host \<Rightarrow> 'o accessor" where
  "to_datetime_end_body H self0 =
     (let self = enter ''to_datetime_end'' self0 in
      case to_datetime_begin H self of
        (Inl e, self1) \<Rightarrow> (Inl e, self1)
      | (Inr b, self1) \<Rightarrow>
          (case to_exposure_time H self1 of
             (Inl e, self2) \<Rightarrow> (Inl e, self2)
           | (Inr x, self2) \<Rightarrow>
               (case py_add H b x of
                  Inl e \<Rightarrow> (Inl e, self2)
                | Inr datetime_end \<Rightarrow> (Inr datetime_end, self2))))"

definition to_datetime_end :: "'o host \<Rightarrow> 'o accessor" where
  "to_datetime_end H = cache_translation ''to_datetime_end'' (to_datetime_end_body H)"

text \<open>
  \<^verbatim>\<open>
  @cache_translation
  def to_tracking_radec(self):
      radec = SkyCoord(self._header["RA2000"], self._header["DEC2000"],
                       frame="icrs", unit=(u.hourangle, u.deg))
      return radec
  \<close>
  The arguments are evaluated left to right, before the call.
\<close>

definition to_tracking_radec_body :: "'o host \<Rightarrow> 'o accessor" where
  "to_tracking_radec_body H self0 =
     (let self = enter ''to_tracking_radec'' self0 in
      case getitem (header self) ''RA2000'' of
        Inl e \<Rightarrow> (Inl e, self)
      | Inr ra \<Rightarrow>
          (case getitem (header self) ''DEC2000'' of
             Inl e \<Rightarrow> (Inl e, self)
           | Inr dec \<Rightarrow>
               (case SkyCoord H ra dec ''icrs'' (U_hourangle, U_deg) of
                  Inl e \<Rightarrow> (Inl e, self)
                | Inr radec \<Rightarrow> (Inr (Host radec), self))))"

definition to_tracking_radec :: "'o host \<Rightarrow> 'o accessor" where
  "to_tracking_radec H = cache_translation ''to_tracking_radec'' (to_tracking_radec_body H)"

text \<open>
  \<^verbatim>\<open>
  @cache_translation
  def to_instrument(self):
      if self._header["INSTRUME"] == "NECAM":
          return "NeCam"
      else:
          #It should never get here, given can_translate().
          return "Unknown"

  def to_telescope(self):
      return self.to_instrument()
  \<close>
  \<open>to_telescope\<close> has no decorator: the class's method is the function as written.
\<close>

definition to_instrument_body :: "'o accessor" where
  "to_instrument_body self0 =
     (let self = enter ''to_instrument'' self0 in
      case getitem (header self) ''INSTRUME'' of
        Inl e \<Rightarrow> (Inl e, self)
      | Inr v \<Rightarrow>
          if py_eq_str v ''NECAM'' then (Inr (Plain (HStr ''NeCam'')), self)
          else (Inr (Plain (HStr ''Unknown'')), self))"

definition to_instrument :: "'o accessor" where
  "to_instrument = cache_translation ''to_instrument'' to_instrument_body"

definition to_telescope :: "'o accessor" where
  "to_telescope self0 = (let self = enter ''to_telescope'' self0 in to_instrument self)"

text \<open>
  \<^verbatim>\<open>
  @cache_translation
  def to_detector_name(self):
      return '{:02d}'.format(self._header["DETECTOR"])
  \<close>
  The format specification \<^verbatim>\<open>02d\<close> is: decimal, minimum width 2, padded with
  zeros after the sign. An \<^verbatim>\<open>int\<close> is written in decimal; a \<^verbatim>\<open>bool\<close> is an
  \<^verbatim>\<open>int\<close> (0 or 1); a \<^verbatim>\<open>float\<close> and a \<^verbatim>\<open>str\<close> raise \<open>ValueError\<close>
  (unknown format code \<^verbatim>\<open>d\<close>); \<^verbatim>\<open>None\<close> raises \<open>TypeError\<close>.
\<close>

definition digit_char :: "nat \<Rightarrow> char" where
  "digit_char d = ''0123456789'' ! d"

fun str_nat :: "nat \<Rightarrow> string" where
  "str_nat n = (if n < 10 then [digit_char n] else str_nat (n div 10) @ [digit_char (n mod 10)])"

declare str_nat.simps [simp del]

definition zero_pad :: "nat \<Rightarrow> string \<Rightarrow> string" where
  "zero_pad width s = replicate (width - length s) CHR ''0'' @ s"

definition format_02d_int :: "int \<Rightarrow> string" where
  "format_02d_int n =
     (if n < 0 then CHR ''-'' # zero_pad 1 (str_nat (nat (- n)))
      else zero_pad 2 (str_nat (nat n)))"

definition format_02d :: "hval \<Rightarrow> py_error + string" where
  "format_02d v =
     (case v of
        HInt n \<Rightarrow> Inr (format_02d_int n)
      | HBool b \<Rightarrow> Inr (format_02d_int (if b then 1 else 0))
      | HFloat f \<Rightarrow> Inl ValueError
      | HStr s \<Rightarrow> Inl ValueError
      | HNone \<Rightarrow> Inl TypeError)"

text \<open>
  The number a string of decimal digits denotes (leading zeros allowed). It is not part
  of the source; it states what "written in decimal" means for \<open>str_nat\<close>.
\<close>

definition digit_value :: "char \<Rightarrow> nat" where
  "digit_value c = of_char c - 48"

definition decimal_value :: "string \<Rightarrow> nat" where
  "decimal_value s = foldl (\<lambda>acc c. 10 * acc + digit_value c) 0 s"

definition to_detector_name_body :: "'o accessor" where
  "to_detector_name_body self0 =
     (let self = enter ''to_detector_name'' self0 in
      case getitem (header self) ''DETECTOR'' of
        Inl e \<Rightarrow> (Inl e, self)
      | Inr v \<Rightarrow>
          (case format_02d v of
             Inl e \<Rightarrow> (Inl e, self)
           | Inr s \<Rightarrow> (Inr (Plain (HStr s)), self)))"

definition to_detector_name :: "'o accessor" where
  "to_detector_name = cache_translation ''to_detector_name'' to_detector_name_body"

section \<open>A host for running examples\<close>

text \<open>
  To run the translator on a concrete header, the host's operations are instantiated
  by the terms of their calls: an object is the expression that built it. This host
  never raises.
\<close>

datatype sym =
    Sym_Time string string string
  | Sym_SkyCoord hval hval string "py_unit \<times> py_unit"
  | Sym_Quantity hval py_unit
  | Sym_add "sym pyval" "sym pyval"

definition sym_host :: "sym host" where
  "sym_host =
     \<lparr>Time = (\<lambda>v f s. Inr (Sym_Time v f s)),
      SkyCoord = (\<lambda>ra dec frame unit. Inr (Sym_SkyCoord ra dec frame unit)),
      Quantity = (\<lambda>v u. Inr (Sym_Quantity v u)),
      py_add = (\<lambda>a b. Inr (Host (Sym_add a b)))\<rparr>"

section \<open>The ingest configuration\<close>

text \<open>
  \<^verbatim>\<open>config/ingest.py\<close> is a script the host runs against its configuration
  object: it retargets the parse task and assigns five fields. The dict literals are
  association lists in the source's order (no key is written twice), the lists are
  lists.
  \<^verbatim>\<open>
  config.parse.retarget(NecamParseTask)
  config.parse.translation = {'dataType':'IMGTYPE', 'expTime':'EXPTIME', 'ccd':'INSTRUME',
                              'frameId':'RUN-ID', 'visit':'RUN-ID', 'filter':'FILTER',
                              'field':'OBJECT'}
  config.parse.translators = {'dateObs':'translate_Date', 'taiObs':'translate_Date'}
  config.register.visit = ['visit', 'ccd', 'filter','dateObs','taiObs']
  config.register.unique = ['visit', 'ccd', 'filter']
  config.register.columns = {'frameId':'text', 'visit':'text', 'ccd':'text',
                             'filter':'text', 'dataType':'text', 'expTime':'double',
                             'dateObs':'text', 'taiObs':'text', 'field':'text'}
  \<close>
\<close>

record parse_config =
  target :: string
  translation :: "(string \<times> string) list"
  translators :: "(string \<times> string) list"

record register_config =
  visit :: "string list"
  unique :: "string list"
  columns :: "(string \<times> string) list"

record ingest_config =
  parse :: parse_config
  register :: register_config

definition retarget :: "string \<Rightarrow> parse_config \<Rightarrow> parse_config" where
  "retarget task p = p\<lparr>target := task\<rparr>"

definition ingest :: "ingest_config \<Rightarrow> ingest_config" where
  "ingest config0 =
     (let config1 = config0\<lparr>parse := retarget ''NecamParseTask'' (parse config0)\<rparr>;
          config2 = config1\<lparr>parse := (parse config1)\<lparr>translation :=
            [(''dataType'', ''IMGTYPE''),
             (''expTime'', ''EXPTIME''),
             (''ccd'', ''INSTRUME''),
             (''frameId'', ''RUN-ID''),
             (''visit'', ''RUN-ID''),
             (''filter'', ''FILTER''),
             (''field'', ''OBJECT'')]\<rparr>\<rparr>;
          config3 = config2\<lparr>parse := (parse config2)\<lparr>translators :=
            [(''dateObs'', ''translate_Date''),
             (''taiObs'', ''translate_Date'')]\<rparr>\<rparr>;
          config4 = config3\<lparr>register := (register config3)\<lparr>visit :=
            [''visit'', ''ccd'', ''filter'', ''dateObs'', ''taiObs'']\<rparr>\<rparr>;
          config5 = config4\<lparr>register := (register config4)\<lparr>unique :=
            [''visit'', ''ccd'', ''filter'']\<rparr>\<rparr>;
          config6 = config5\<lparr>register := (register config5)\<lparr>columns :=
            [(''frameId'', ''text''),
             (''visit'', ''text''),
             (''ccd'', ''text''),
             (''filter'', ''text''),
             (''dataType'', ''text''),
             (''expTime'', ''double''),
             (''dateObs'', ''text''),
             (''taiObs'', ''text''),
             (''field'', ''text'')]\<rparr>\<rparr>
      in config6)"

text \<open>The keys of a dict literal.\<close>

definition keys :: "(string \<times> 'v) list \<Rightarrow> string list" where
  "keys d = map fst d"

text \<open>A configuration before the script has run, for examples: every field empty.\<close>

definition empty_config :: ingest_config where
  "empty_config =
     \<lparr>parse = \<lparr>target = [], translation = [], translators = []\<rparr>,
      register = \<lparr>visit = [], unique = [], columns = []\<rparr>\<rparr>"

section \<open>Sequences of lookups\<close>

text \<open>
  The host may look any property up, in any order and any number of times, on the one
  translator it made for a header. A lookup is the call of one method of the class; a
  sequence of lookups threads the translator through the calls. What a lookup returns
  (or raises) goes to the host and does not stop the next lookup.
\<close>

datatype lookup =
    Datetime_begin
  | Datetime_end
  | Tracking_radec
  | Instrument
  | Telescope
  | Detector_name
  | Trivial string

fun perform :: "'o host \<Rightarrow> lookup \<Rightarrow> 'o accessor" where
  "perform H Datetime_begin = to_datetime_begin H"
| "perform H Datetime_end = to_datetime_end H"
| "perform H Tracking_radec = to_tracking_radec H"
| "perform H Instrument = to_instrument"
| "perform H Telescope = to_telescope"
| "perform H Detector_name = to_detector_name"
| "perform H (Trivial property) = trivial_accessor H property"

fun lookups :: "'o host \<Rightarrow> lookup list \<Rightarrow> 'o translator \<Rightarrow> 'o translator" where
  "lookups H [] self = self"
| "lookups H (a # as) self = lookups H as (snd (perform H a self))"

text \<open>The name under which a method body records itself, and the decorator caches.\<close>

fun method_name :: "lookup \<Rightarrow> string" where
  "method_name Datetime_begin = ''to_datetime_begin''"
| "method_name Datetime_end = ''to_datetime_end''"
| "method_name Tracking_radec = ''to_tracking_radec''"
| "method_name Instrument = ''to_instrument''"
| "method_name Telescope = ''to_telescope''"
| "method_name Detector_name = ''to_detector_name''"
| "method_name (Trivial property) = ''to_'' @ property"

text \<open>The methods the source decorates with \<^verbatim>\<open>@cache_translation\<close>.\<close>

definition decorated :: "lookup list" where
  "decorated = [Datetime_begin, Datetime_end, Tracking_radec, Instrument, Detector_name]"

text \<open>What the first lookup of a property on a new translator returns.\<close>

definition first_result :: "'o host \<Rightarrow> fits_header \<Rightarrow> lookup \<Rightarrow> py_error + 'o pyval" where
  "first_result H hdr a = fst (perform H a (new_translator hdr))"

text \<open>
  Two invariants of a translator made for \<open>hdr\<close>. The cache is sound when every
  entry of a decorated method is the value its first lookup returned. The record of
  entered bodies is tight when a cached method was entered exactly once, and a method
  that is not cached was never entered unless its derivation raises.
\<close>

definition cache_sound :: "'o host \<Rightarrow> fits_header \<Rightarrow> 'o translator \<Rightarrow> bool" where
  "cache_sound H hdr self \<longleftrightarrow>
     header self = hdr \<and>
     (\<forall>a \<in> set decorated. \<forall>v.
        translation_cache self (method_name a) = Some v \<longrightarrow> first_result H hdr a = Inr v)"

definition entered_once :: "'o host \<Rightarrow> fits_header \<Rightarrow> 'o translator \<Rightarrow> bool" where
  "entered_once H hdr self \<longleftrightarrow>
     (\<forall>a \<in> set decorated.
        (translation_cache self (method_name a) \<noteq> None \<longrightarrow>
           count_list (invoked self) (method_name a) = 1) \<and>
        (translation_cache self (method_name a) = None \<longrightarrow>
           count_list (invoked self) (method_name a) = 0 \<or> isl (first_result H hdr a)))"

section \<open>Basic facts about the translator state\<close>

lemma new_translator_simps [simp]:
  "header (new_translator hdr) = hdr"
  "translation_cache (new_translator hdr) name = None"
  "invoked (new_translator hdr) = []"
  by (simp_all add: new_translator_def)

lemma enter_simps [simp]:
  "header (enter name self) = header self"
  "translation_cache (enter name self) = translation_cache self"
  "invoked (enter name self) = invoked self @ [name]"
  by (simp_all add: enter_def)

text \<open>A lookup that misses the cache returns what the method returns.\<close>

lemma fst_cache_translation_miss:
  "translation_cache self name = None \<Longrightarrow>
   fst (cache_translation name func self) = fst (func self)"
  by (auto simp: cache_translation_def split: prod.splits sum.splits)

subsection \<open>What the method bodies do to the translator\<close>

lemma trivial_accessor_state [simp]: "snd (trivial_accessor H p self) = self"
  by (simp add: trivial_accessor_def split: option.splits sum.splits prod.splits)

lemma trivial_accessor_fst:
  "fst (trivial_accessor H p self) = fst (trivial_accessor H p (new_translator (header self)))"
  by (simp add: trivial_accessor_def split: option.splits sum.splits prod.splits)

lemma to_datetime_begin_body_snd [simp]:
  "snd (to_datetime_begin_body H self) = enter ''to_datetime_begin'' self"
  by (simp add: to_datetime_begin_body_def Let_def split: sum.splits hval.splits)

lemma to_datetime_begin_body_fst:
  "fst (to_datetime_begin_body H self) = fst (to_datetime_begin_body H (new_translator (header self)))"
  by (simp add: to_datetime_begin_body_def Let_def split: sum.splits hval.splits)

lemma to_tracking_radec_body_snd [simp]:
  "snd (to_tracking_radec_body H self) = enter ''to_tracking_radec'' self"
  by (simp add: to_tracking_radec_body_def Let_def split: sum.splits)

lemma to_tracking_radec_body_fst:
  "fst (to_tracking_radec_body H self) = fst (to_tracking_radec_body H (new_translator (header self)))"
  by (simp add: to_tracking_radec_body_def Let_def split: sum.splits)

lemma to_instrument_body_snd [simp]:
  "snd (to_instrument_body self) = enter ''to_instrument'' self"
  by (simp add: to_instrument_body_def Let_def split: sum.splits)

lemma to_instrument_body_fst:
  "fst (to_instrument_body self) = fst (to_instrument_body (new_translator (header self)))"
  by (simp add: to_instrument_body_def Let_def split: sum.splits)

lemma to_detector_name_body_snd [simp]:
  "snd (to_detector_name_body self) = enter ''to_detector_name'' self"
  by (simp add: to_detector_name_body_def Let_def split: sum.splits)

lemma to_detector_name_body_fst:
  "fst (to_detector_name_body self) = fst (to_detector_name_body (new_translator (header self)))"
  by (simp add: to_detector_name_body_def Let_def split: sum.splits)


subsection \<open>The cache invariants\<close>

lemma method_name_decorated_inj:
  "a \<in> set decorated \<Longrightarrow> b \<in> set decorated \<Longrightarrow> method_name a = method_name b \<longleftrightarrow> a = b"
  by (auto simp: decorated_def)

lemma cache_sound_new [simp]: "cache_sound H hdr (new_translator hdr)"
  by (simp add: cache_sound_def)

lemma entered_once_new [simp]: "entered_once H hdr (new_translator hdr)"
  by (simp add: entered_once_def)

lemma cache_sound_enter [simp]: "cache_sound H hdr (enter n self) = cache_sound H hdr self"
  by (simp add: cache_sound_def)

text \<open>The effect of a memoised method whose body returns r and only records its entry.\<close>

lemma memo_fst:
  assumes "a \<in> set decorated" and "method_name a = n" and "cache_sound H hdr self"
  shows "fst (cache_translation n (\<lambda>s. (first_result H hdr a, enter n s)) self) = first_result H hdr a"
  using assms
  by (auto simp: cache_translation_def cache_sound_def split: option.splits sum.splits)

lemma memo_snd:
  "snd (cache_translation n (\<lambda>s. (r, enter n s)) self) =
     (case translation_cache self n of
        Some v \<Rightarrow> self
      | None \<Rightarrow>
          (case r of
             Inl e \<Rightarrow> enter n self
           | Inr v \<Rightarrow> (enter n self)\<lparr>translation_cache := (translation_cache self)(n \<mapsto> v)\<rparr>))"
  by (simp add: cache_translation_def split: option.splits sum.splits)

lemma memo_sound:
  assumes a: "a \<in> set decorated" and n: "method_name a = n" and sound: "cache_sound H hdr self"
  shows "cache_sound H hdr (snd (cache_translation n (\<lambda>s. (first_result H hdr a, enter n s)) self))"
proof (cases "translation_cache self n")
  case (Some v)
  then show ?thesis using sound by (simp add: memo_snd)
next
  case None
  show ?thesis
  proof (cases "first_result H hdr a")
    case (Inl e)
    with None sound show ?thesis by (simp add: memo_snd)
  next
    case (Inr v)
    have "first_result H hdr b = Inr w"
      if b: "b \<in> set decorated" and w: "((translation_cache self)(n \<mapsto> v)) (method_name b) = Some w"
      for b w
    proof (cases "b = a")
      case True
      with w n Inr show ?thesis by simp
    next
      case False
      then have "method_name b \<noteq> n"
        using method_name_decorated_inj [OF b a] n by simp
      with w have "translation_cache self (method_name b) = Some w" by simp
      with sound b show ?thesis by (simp add: cache_sound_def)
    qed
    with None Inr sound show ?thesis
      by (simp add: memo_snd cache_sound_def)
  qed
qed

lemma entered_once_other:
  assumes other: "\<And>b. b \<in> set decorated \<Longrightarrow> b \<noteq> a \<Longrightarrow>
             translation_cache self' (method_name b) = translation_cache self (method_name b)
             \<and> count_list (invoked self') (method_name b) = count_list (invoked self) (method_name b)"
    and this_one: "a \<in> set decorated \<Longrightarrow>
           (translation_cache self' (method_name a) \<noteq> None \<longrightarrow>
              count_list (invoked self') (method_name a) = 1) \<and>
           (translation_cache self' (method_name a) = None \<longrightarrow>
              count_list (invoked self') (method_name a) = 0 \<or> isl (first_result H hdr a))"
    and once: "entered_once H hdr self"
  shows "entered_once H hdr self'"
  unfolding entered_once_def
proof
  fix b assume b: "b \<in> set decorated"
  show "(translation_cache self' (method_name b) \<noteq> None \<longrightarrow>
           count_list (invoked self') (method_name b) = 1) \<and>
        (translation_cache self' (method_name b) = None \<longrightarrow>
           count_list (invoked self') (method_name b) = 0 \<or> isl (first_result H hdr b))"
  proof (cases "b = a")
    case True
    from b True have "a \<in> set decorated" by simp
    from this_one [OF this] show ?thesis unfolding True .
  next
    case False
    from once b have "(translation_cache self (method_name b) \<noteq> None \<longrightarrow>
           count_list (invoked self) (method_name b) = 1) \<and>
        (translation_cache self (method_name b) = None \<longrightarrow>
           count_list (invoked self) (method_name b) = 0 \<or> isl (first_result H hdr b))"
      by (simp add: entered_once_def)
    with other [OF b False] show ?thesis by simp
  qed
qed

lemma memo_entered_once:
  assumes a: "a \<in> set decorated" and n: "method_name a = n" and once: "entered_once H hdr self"
  shows "entered_once H hdr (snd (cache_translation n (\<lambda>s. (first_result H hdr a, enter n s)) self))"
proof (rule entered_once_other [OF _ _ once, of a])
  fix b assume b: "b \<in> set decorated" "b \<noteq> a"
  then have "method_name b \<noteq> n"
    using method_name_decorated_inj [OF b(1) a] n by simp
  then show "translation_cache (snd (cache_translation n (\<lambda>s. (first_result H hdr a, enter n s)) self)) (method_name b)
               = translation_cache self (method_name b)
             \<and> count_list (invoked (snd (cache_translation n (\<lambda>s. (first_result H hdr a, enter n s)) self))) (method_name b)
               = count_list (invoked self) (method_name b)"
    by (simp add: memo_snd split: option.splits sum.splits)
next
  let ?s' = "snd (cache_translation n (\<lambda>s. (first_result H hdr a, enter n s)) self)"
  from once a n have "(translation_cache self n \<noteq> None \<longrightarrow> count_list (invoked self) n = 1) \<and>
        (translation_cache self n = None \<longrightarrow> count_list (invoked self) n = 0 \<or> isl (first_result H hdr a))"
    by (auto simp: entered_once_def)
  then show "(translation_cache ?s' (method_name a) \<noteq> None \<longrightarrow>
              count_list (invoked ?s') (method_name a) = 1) \<and>
           (translation_cache ?s' (method_name a) = None \<longrightarrow>
              count_list (invoked ?s') (method_name a) = 0 \<or> isl (first_result H hdr a))"
    using n by (auto simp: memo_snd split: option.splits sum.splits)
qed


subsection \<open>The decorated methods that read only the header\<close>

lemma cached_leaf:
  assumes body_snd: "\<And>s. snd (f s) = enter n s"
    and body_fst: "\<And>s. fst (f s) = fst (f (new_translator (header s)))"
    and perf: "perform H a = cache_translation n f"
    and hdr: "header self = hdr"
  shows "cache_translation n f self =
           cache_translation n (\<lambda>s. (first_result H hdr a, enter n s)) self"
proof -
  have first: "first_result H hdr a = fst (f (new_translator hdr))"
    by (simp add: first_result_def perf fst_cache_translation_miss)
  have "fst (f self) = first_result H hdr a"
    using body_fst [of self] hdr first by simp
  moreover have "snd (f self) = enter n self" by (rule body_snd)
  ultimately have "f self = (first_result H hdr a, enter n self)"
    by (metis prod.collapse)
  then show ?thesis
    by (cases "translation_cache self n") (simp_all add: cache_translation_def)
qed

lemma to_datetime_begin_memo:
  "header self = hdr \<Longrightarrow>
   to_datetime_begin H self =
     cache_translation ''to_datetime_begin''
       (\<lambda>s. (first_result H hdr Datetime_begin, enter ''to_datetime_begin'' s)) self"
  unfolding to_datetime_begin_def
  by (rule cached_leaf) (simp_all add: to_datetime_begin_body_fst [symmetric] to_datetime_begin_def)

lemma to_tracking_radec_memo:
  "header self = hdr \<Longrightarrow>
   to_tracking_radec H self =
     cache_translation ''to_tracking_radec''
       (\<lambda>s. (first_result H hdr Tracking_radec, enter ''to_tracking_radec'' s)) self"
  unfolding to_tracking_radec_def
  by (rule cached_leaf) (simp_all add: to_tracking_radec_body_fst [symmetric] to_tracking_radec_def)

lemma to_instrument_memo:
  "header self = hdr \<Longrightarrow>
   to_instrument self =
     cache_translation ''to_instrument''
       (\<lambda>s. (first_result H hdr Instrument, enter ''to_instrument'' s)) self"
  unfolding to_instrument_def
  by (rule cached_leaf) (simp_all add: to_instrument_body_fst [symmetric] to_instrument_def)

lemma to_detector_name_memo:
  "header self = hdr \<Longrightarrow>
   to_detector_name self =
     cache_translation ''to_detector_name''
       (\<lambda>s. (first_result H hdr Detector_name, enter ''to_detector_name'' s)) self"
  unfolding to_detector_name_def
  by (rule cached_leaf) (simp_all add: to_detector_name_body_fst [symmetric] to_detector_name_def)


lemma decorated_simps [simp]:
  "Datetime_begin \<in> set decorated" "Datetime_end \<in> set decorated"
  "Tracking_radec \<in> set decorated" "Instrument \<in> set decorated"
  "Detector_name \<in> set decorated" "Telescope \<notin> set decorated"
  "Trivial p \<notin> set decorated"
  by (simp_all add: decorated_def)

lemma to_datetime_begin_fst:
  "cache_sound H hdr self \<Longrightarrow> fst (to_datetime_begin H self) = first_result H hdr Datetime_begin"
  using memo_fst [of Datetime_begin "''to_datetime_begin''" H hdr self]
  by (simp add: to_datetime_begin_memo [of self hdr H] cache_sound_def)

lemma to_datetime_begin_sound:
  "cache_sound H hdr self \<Longrightarrow> cache_sound H hdr (snd (to_datetime_begin H self))"
  using memo_sound [of Datetime_begin "''to_datetime_begin''" H hdr self]
  by (simp add: to_datetime_begin_memo [of self hdr H] cache_sound_def)

subsection \<open>The end of the exposure, which calls another method\<close>

lemma to_datetime_end_body_eq:
  assumes sound: "cache_sound H hdr self"
  shows "to_datetime_end_body H self =
           ((case first_result H hdr Datetime_begin of
               Inl e \<Rightarrow> Inl e
             | Inr b \<Rightarrow>
                 (case fst (to_exposure_time H (new_translator hdr)) of
                    Inl e \<Rightarrow> Inl e
                  | Inr x \<Rightarrow> py_add H b x)),
            snd (to_datetime_begin H (enter ''to_datetime_end'' self)))"
proof -
  let ?s' = "enter ''to_datetime_end'' self"
  obtain r s1 where start: "to_datetime_begin H ?s' = (r, s1)"
    by (cases "to_datetime_begin H ?s'")
  have s': "cache_sound H hdr ?s'" using sound by simp
  have r: "r = first_result H hdr Datetime_begin"
    using to_datetime_begin_fst [OF s'] start by simp
  have "cache_sound H hdr s1"
    using to_datetime_begin_sound [OF s'] start by simp
  then have hdr1: "header s1 = hdr" by (simp add: cache_sound_def)
  have exposure: "to_exposure_time H s1 = (fst (to_exposure_time H (new_translator hdr)), s1)"
    using trivial_accessor_fst [of H "''exposure_time''" s1] hdr1
    by (simp add: to_exposure_time_def prod_eq_iff)
  show ?thesis
    by (simp add: to_datetime_end_body_def Let_def start exposure r [symmetric]
          split: sum.splits)
qed

lemma first_result_Datetime_end:
  "first_result H hdr Datetime_end =
     (case first_result H hdr Datetime_begin of
        Inl e \<Rightarrow> Inl e
      | Inr b \<Rightarrow>
          (case fst (to_exposure_time H (new_translator hdr)) of
             Inl e \<Rightarrow> Inl e
           | Inr x \<Rightarrow> py_add H b x))"
  by (simp add: first_result_def to_datetime_end_def fst_cache_translation_miss
        to_datetime_end_body_eq [of H hdr])

lemma to_datetime_end_body_first:
  assumes "cache_sound H hdr self"
  shows "to_datetime_end_body H self =
           (first_result H hdr Datetime_end,
            snd (to_datetime_begin H (enter ''to_datetime_end'' self)))"
  using to_datetime_end_body_eq [OF assms] by (simp add: first_result_Datetime_end)


lemma cache_sound_store:
  assumes a: "a \<in> set decorated" and v: "first_result H hdr a = Inr v"
    and sound: "cache_sound H hdr self"
  shows "cache_sound H hdr
           (self\<lparr>translation_cache := (translation_cache self)(method_name a \<mapsto> v)\<rparr>)"
proof -
  have "first_result H hdr b = Inr w"
    if b: "b \<in> set decorated"
      and w: "((translation_cache self)(method_name a \<mapsto> v)) (method_name b) = Some w"
    for b w
  proof (cases "b = a")
    case True
    with w v show ?thesis by simp
  next
    case False
    then have "method_name b \<noteq> method_name a"
      using method_name_decorated_inj [OF b a] by simp
    with w have "translation_cache self (method_name b) = Some w" by simp
    with sound b show ?thesis by (simp add: cache_sound_def)
  qed
  with sound show ?thesis by (simp add: cache_sound_def)
qed

lemma to_datetime_end_eq:
  assumes sound: "cache_sound H hdr self"
  shows "to_datetime_end H self =
           (case translation_cache self ''to_datetime_end'' of
              Some v \<Rightarrow> (Inr v, self)
            | None \<Rightarrow>
                (case first_result H hdr Datetime_end of
                   Inl e \<Rightarrow> (Inl e, snd (to_datetime_begin H (enter ''to_datetime_end'' self)))
                 | Inr v \<Rightarrow>
                     (Inr v, (snd (to_datetime_begin H (enter ''to_datetime_end'' self)))
                        \<lparr>translation_cache :=
                           (translation_cache (snd (to_datetime_begin H (enter ''to_datetime_end'' self))))
                             (''to_datetime_end'' \<mapsto> v)\<rparr>)))"
  by (cases "translation_cache self ''to_datetime_end''")
     (simp_all add: to_datetime_end_def cache_translation_def
        to_datetime_end_body_first [OF sound] split: sum.splits)

lemma to_datetime_end_fst:
  assumes sound: "cache_sound H hdr self"
  shows "fst (to_datetime_end H self) = first_result H hdr Datetime_end"
proof (cases "translation_cache self ''to_datetime_end''")
  case None
  then show ?thesis by (simp add: to_datetime_end_eq [OF sound] split: sum.splits)
next
  case (Some v)
  with sound have "first_result H hdr Datetime_end = Inr v"
    by (auto simp: cache_sound_def)
  with Some show ?thesis by (simp add: to_datetime_end_eq [OF sound])
qed

lemma to_datetime_end_sound:
  assumes sound: "cache_sound H hdr self"
  shows "cache_sound H hdr (snd (to_datetime_end H self))"
proof (cases "translation_cache self ''to_datetime_end''")
  case (Some v)
  then show ?thesis using sound by (simp add: to_datetime_end_eq [OF sound])
next
  case None
  let ?s1 = "snd (to_datetime_begin H (enter ''to_datetime_end'' self))"
  have s1: "cache_sound H hdr ?s1"
    by (rule to_datetime_begin_sound) (simp add: sound)
  show ?thesis
  proof (cases "first_result H hdr Datetime_end")
    case (Inl e)
    with None s1 show ?thesis by (simp add: to_datetime_end_eq [OF sound])
  next
    case (Inr v)
    from cache_sound_store [OF _ Inr s1] None Inr show ?thesis
      by (simp add: to_datetime_end_eq [OF sound])
  qed
qed


lemma entered_once_uncached:
  "entered_once H hdr self \<Longrightarrow> a \<in> set decorated \<Longrightarrow>
   translation_cache self (method_name a) = None \<Longrightarrow>
   count_list (invoked self) (method_name a) = 0 \<or> isl (first_result H hdr a)"
  unfolding entered_once_def by blast

lemma entered_once_cached:
  "entered_once H hdr self \<Longrightarrow> a \<in> set decorated \<Longrightarrow>
   translation_cache self (method_name a) = Some v \<Longrightarrow>
   count_list (invoked self) (method_name a) = 1"
  unfolding entered_once_def by fastforce

lemma to_datetime_begin_snd:
  "snd (to_datetime_begin H self) =
     (case translation_cache self ''to_datetime_begin'' of
        Some v \<Rightarrow> self
      | None \<Rightarrow>
          (case first_result H (header self) Datetime_begin of
             Inl e \<Rightarrow> enter ''to_datetime_begin'' self
           | Inr v \<Rightarrow> (enter ''to_datetime_begin'' self)
               \<lparr>translation_cache := (translation_cache self)(''to_datetime_begin'' \<mapsto> v)\<rparr>))"
  by (simp add: to_datetime_begin_memo [of self "header self" H] memo_snd)

lemma to_datetime_begin_entered_once:
  "cache_sound H hdr self \<Longrightarrow> entered_once H hdr self \<Longrightarrow>
   entered_once H hdr (snd (to_datetime_begin H self))"
  using memo_entered_once [of Datetime_begin "''to_datetime_begin''" H hdr self]
  by (simp add: to_datetime_begin_memo [of self hdr H] cache_sound_def)

lemma to_datetime_end_entered_once:
  assumes sound: "cache_sound H hdr self" and once: "entered_once H hdr self"
  shows "entered_once H hdr (snd (to_datetime_end H self))"
proof (cases "translation_cache self ''to_datetime_end''")
  case (Some v)
  then show ?thesis using once by (simp add: to_datetime_end_eq [OF sound])
next
  case None
  let ?t = "snd (to_datetime_begin H self)"
  let ?s1 = "snd (to_datetime_begin H (enter ''to_datetime_end'' self))"
  let ?s' = "snd (to_datetime_end H self)"
  have t: "entered_once H hdr ?t"
    using sound once by (rule to_datetime_begin_entered_once)
  have cache1: "translation_cache ?s1 = translation_cache ?t"
    by (simp add: to_datetime_begin_snd split: option.splits sum.splits)
  have count1: "count_list (invoked ?s1) m =
                  count_list (invoked ?t) m + (if m = ''to_datetime_end'' then 1 else 0)" for m
    by (simp add: to_datetime_begin_snd split: option.splits sum.splits)
  have cache_t: "translation_cache ?t ''to_datetime_end'' = None"
    using None by (simp add: to_datetime_begin_snd split: option.splits sum.splits)
  have count_t: "count_list (invoked ?t) ''to_datetime_end'' =
                   count_list (invoked self) ''to_datetime_end''"
    by (simp add: to_datetime_begin_snd split: option.splits sum.splits)
  have cache': "translation_cache ?s' =
                  (case first_result H hdr Datetime_end of
                     Inl e \<Rightarrow> translation_cache ?t
                   | Inr v \<Rightarrow> (translation_cache ?t)(''to_datetime_end'' \<mapsto> v))"
    using None by (simp add: to_datetime_end_eq [OF sound] cache1 split: sum.splits)
  have count': "count_list (invoked ?s') m =
                  count_list (invoked ?t) m + (if m = ''to_datetime_end'' then 1 else 0)" for m
  proof -
    have "invoked ?s' = invoked ?s1"
      using None by (simp add: to_datetime_end_eq [OF sound] split: sum.splits)
    then show ?thesis by (simp only: count1)
  qed
  have before: "count_list (invoked self) ''to_datetime_end'' = 0
                  \<or> isl (first_result H hdr Datetime_end)"
    using entered_once_uncached [OF once, of Datetime_end] None by simp
  show ?thesis
  proof (rule entered_once_other [OF _ _ t, of Datetime_end])
    fix b assume b: "b \<in> set decorated" "b \<noteq> Datetime_end"
    then have "method_name b \<noteq> ''to_datetime_end''"
      using method_name_decorated_inj [of b Datetime_end] by simp
    then show "translation_cache ?s' (method_name b) = translation_cache ?t (method_name b)
               \<and> count_list (invoked ?s') (method_name b) = count_list (invoked ?t) (method_name b)"
      by (simp add: cache' count' split: sum.splits)
  next
    show "(translation_cache ?s' (method_name Datetime_end) \<noteq> None \<longrightarrow>
              count_list (invoked ?s') (method_name Datetime_end) = 1) \<and>
           (translation_cache ?s' (method_name Datetime_end) = None \<longrightarrow>
              count_list (invoked ?s') (method_name Datetime_end) = 0
              \<or> isl (first_result H hdr Datetime_end))"
      using before cache_t count_t
      by (cases "first_result H hdr Datetime_end") (simp_all add: cache' count')
  qed
qed


subsection \<open>Every lookup keeps the invariants\<close>

lemma entered_once_enter_other:
  assumes "\<And>b. b \<in> set decorated \<Longrightarrow> method_name b \<noteq> n"
  shows "entered_once H hdr (enter n self) = entered_once H hdr self"
proof -
  have "n \<noteq> method_name b" if "b \<in> set decorated" for b
    using assms [OF that] by blast
  then show ?thesis by (simp add: entered_once_def)
qed

lemma to_instrument_fst:
  "cache_sound H hdr self \<Longrightarrow> fst (to_instrument self) = first_result H hdr Instrument"
  using memo_fst [of Instrument "''to_instrument''" H hdr self]
  by (simp add: to_instrument_memo [of self hdr H] cache_sound_def)

lemma first_result_Telescope: "first_result H hdr Telescope = first_result H hdr Instrument"
  using to_instrument_fst [of H hdr "enter ''to_telescope'' (new_translator hdr)"]
  by (simp add: first_result_def to_telescope_def Let_def)

lemma first_result_Trivial:
  "first_result H hdr (Trivial p) = fst (trivial_accessor H p (new_translator hdr))"
  by (simp add: first_result_def)

text \<open>Every lookup keeps both invariants and returns what the first lookup returned.\<close>

lemma perform_invariant:
  assumes sound: "cache_sound H hdr self" and once: "entered_once H hdr self"
  shows "fst (perform H a self) = first_result H hdr a"
    and "cache_sound H hdr (snd (perform H a self))"
    and "entered_once H hdr (snd (perform H a self))"
proof -
  have hdr: "header self = hdr" using sound by (simp add: cache_sound_def)
  have not_decorated: "method_name b \<noteq> ''to_telescope''" if "b \<in> set decorated" for b
    using that by (auto simp: decorated_def)
  have "fst (perform H a self) = first_result H hdr a
        \<and> cache_sound H hdr (snd (perform H a self))
        \<and> entered_once H hdr (snd (perform H a self))"
  proof (cases a)
    case Datetime_begin
    then show ?thesis
      using sound once
      by (simp add: to_datetime_begin_fst to_datetime_begin_sound to_datetime_begin_entered_once)
  next
    case Datetime_end
    then show ?thesis
      using sound once
      by (simp add: to_datetime_end_fst to_datetime_end_sound to_datetime_end_entered_once)
  next
    case Tracking_radec
    then show ?thesis
      using sound once hdr
        memo_fst [of Tracking_radec "''to_tracking_radec''" H hdr self]
        memo_sound [of Tracking_radec "''to_tracking_radec''" H hdr self]
        memo_entered_once [of Tracking_radec "''to_tracking_radec''" H hdr self]
      by (simp add: to_tracking_radec_memo [of self hdr H])
  next
    case Instrument
    then show ?thesis
      using sound once hdr
        memo_fst [of Instrument "''to_instrument''" H hdr self]
        memo_sound [of Instrument "''to_instrument''" H hdr self]
        memo_entered_once [of Instrument "''to_instrument''" H hdr self]
      by (simp add: to_instrument_memo [of self hdr H])
  next
    case Telescope
    let ?s = "enter ''to_telescope'' self"
    have s: "cache_sound H hdr ?s" "entered_once H hdr ?s" "header ?s = hdr"
      using sound once hdr by (simp_all add: entered_once_enter_other not_decorated)
    show ?thesis
      using s Telescope
        memo_fst [of Instrument "''to_instrument''" H hdr ?s]
        memo_sound [of Instrument "''to_instrument''" H hdr ?s]
        memo_entered_once [of Instrument "''to_instrument''" H hdr ?s]
      by (simp add: to_telescope_def Let_def first_result_Telescope
            to_instrument_memo [of ?s hdr H])
  next
    case Detector_name
    then show ?thesis
      using sound once hdr
        memo_fst [of Detector_name "''to_detector_name''" H hdr self]
        memo_sound [of Detector_name "''to_detector_name''" H hdr self]
        memo_entered_once [of Detector_name "''to_detector_name''" H hdr self]
      by (simp add: to_detector_name_memo [of self hdr H])
  next
    case (Trivial p)
    then show ?thesis
      using sound once hdr trivial_accessor_fst [of H p self]
      by (simp add: first_result_Trivial)
  qed
  then show "fst (perform H a self) = first_result H hdr a"
    and "cache_sound H hdr (snd (perform H a self))"
    and "entered_once H hdr (snd (perform H a self))"
    by simp_all
qed

lemma lookups_invariant:
  "cache_sound H hdr self \<Longrightarrow> entered_once H hdr self \<Longrightarrow>
   cache_sound H hdr (lookups H as self) \<and> entered_once H hdr (lookups H as self)"
proof (induction as arbitrary: self)
  case Nil
  then show ?case by simp
next
  case (Cons a as)
  from Cons.prems have "cache_sound H hdr (snd (perform H a self))"
    and "entered_once H hdr (snd (perform H a self))"
    by (rule perform_invariant)+
  then show ?case using Cons.IH by simp
qed

lemma entered_at_most_once:
  assumes once: "entered_once H hdr self" and a: "a \<in> set decorated"
    and v: "first_result H hdr a = Inr v"
  shows "count_list (invoked self) (method_name a) \<le> 1"
proof (cases "translation_cache self (method_name a)")
  case None
  from entered_once_uncached [OF once a None] v show ?thesis by simp
next
  case (Some w)
  from entered_once_cached [OF once a Some] show ?thesis by simp
qed

section \<open>Recognition\<close>

text \<open>
  C1. For every header, \<open>can_translate\<close> returns normally, and it returns \<open>True\<close>
  exactly when the header has the key \<^verbatim>\<open>INSTRUME\<close> and the value under it is the
  string \<^verbatim>\<open>"NECAM"\<close>. A header without the key, or with any other value under it
  (another string, or a value that is not a string), gives \<open>False\<close>.
\<close>

theorem can_translate_iff_necam:
  "can_translate hdr filename = Inr (hdr ''INSTRUME'' = Some (HStr ''NECAM''))"
  by (cases "hdr ''INSTRUME''")
     (auto simp: can_translate_def contains_def getitem_def py_eq_str_def split: hval.splits)

theorem can_translate_iff_necam_witness:
  "can_translate [''INSTRUME'' \<mapsto> HStr ''NECAM''] None = Inr True
   \<and> can_translate [''INSTRUME'' \<mapsto> HStr ''NeCam''] None = Inr False
   \<and> can_translate [''INSTRUME'' \<mapsto> HInt 7] None = Inr False
   \<and> can_translate Map.empty (Some ''a.fits'') = Inr False"
  using can_translate_iff_necam [of "[''INSTRUME'' \<mapsto> HStr ''NECAM'']" None]
        can_translate_iff_necam [of "[''INSTRUME'' \<mapsto> HStr ''NeCam'']" None]
        can_translate_iff_necam [of "[''INSTRUME'' \<mapsto> HInt 7]" None]
        can_translate_iff_necam [of Map.empty "Some ''a.fits''"]
  by simp

section \<open>The start of the exposure\<close>

text \<open>
  C2. For every header whose \<^verbatim>\<open>DATE-OBS\<close> value is a string of eight characters
  \<open>YYYYMMDD\<close> (four for the year, two for the month, two for the day; digits in
  particular), \<open>to_datetime_begin\<close> on a new translator returns what the host's
  \<^verbatim>\<open>Time\<close> makes of the ISO date \<open>YYYY-MM-DD\<close> with format \<^verbatim>\<open>iso\<close> and scale
  \<^verbatim>\<open>utc\<close>.
\<close>

theorem to_datetime_begin_iso_utc:
  assumes "hdr ''DATE-OBS'' = Some (HStr (yyyy @ mm @ dd))"
    and "length yyyy = 4" and "length mm = 2" and "length dd = 2"
  shows "fst (to_datetime_begin H (new_translator hdr)) =
           map_sum id Host (Time H (yyyy @ ''-'' @ mm @ ''-'' @ dd) ''iso'' ''utc'')"
proof -
  let ?s = "yyyy @ mm @ dd"
  have parts: "py_slice ?s 0 4 = yyyy" "py_slice ?s 4 6 = mm" "py_slice_from ?s 6 = dd"
    using assms(2-4) by (simp_all add: py_slice_def py_slice_from_def)
  have "fst (to_datetime_begin H (new_translator hdr)) =
          fst (to_datetime_begin_body H (new_translator hdr))"
    by (simp add: to_datetime_begin_def fst_cache_translation_miss)
  also have "\<dots> = map_sum id Host (Time H (yyyy @ ''-'' @ mm @ ''-'' @ dd) ''iso'' ''utc'')"
    using assms(1) parts
    by (simp add: to_datetime_begin_body_def getitem_def Let_def split: sum.splits)
  finally show ?thesis .
qed

theorem to_datetime_begin_iso_utc_witness:
  "fst (to_datetime_begin sym_host (new_translator [''DATE-OBS'' \<mapsto> HStr ''20200102'']))
     = Inr (Host (Sym_Time ''2020-01-02'' ''iso'' ''utc''))"
  using to_datetime_begin_iso_utc
          [of "[''DATE-OBS'' \<mapsto> HStr ''20200102'']" "''2020''" "''01''" "''02''" sym_host]
  by (simp add: sym_host_def)

section \<open>The sky position\<close>

text \<open>
  C5. For every header that has \<^verbatim>\<open>RA2000\<close> and \<^verbatim>\<open>DEC2000\<close>,
  \<open>to_tracking_radec\<close> on a new translator returns what the host's \<^verbatim>\<open>SkyCoord\<close>
  makes of exactly those two values, the first read in hour angle and the second in
  degrees, in the one frame \<^verbatim>\<open>icrs\<close>.
\<close>

theorem to_tracking_radec_icrs:
  assumes "hdr ''RA2000'' = Some ra" and "hdr ''DEC2000'' = Some dec"
  shows "fst (to_tracking_radec H (new_translator hdr)) =
           map_sum id Host (SkyCoord H ra dec ''icrs'' (U_hourangle, U_deg))"
proof -
  have "fst (to_tracking_radec H (new_translator hdr)) =
          fst (to_tracking_radec_body H (new_translator hdr))"
    by (simp add: to_tracking_radec_def fst_cache_translation_miss)
  also have "\<dots> = map_sum id Host (SkyCoord H ra dec ''icrs'' (U_hourangle, U_deg))"
    using assms by (simp add: to_tracking_radec_body_def getitem_def Let_def split: sum.splits)
  finally show ?thesis .
qed

theorem to_tracking_radec_icrs_witness:
  "fst (to_tracking_radec sym_host
         (new_translator [''RA2000'' \<mapsto> HStr ''12:34:56.7'', ''DEC2000'' \<mapsto> HStr ''-01:02:03'']))
     = Inr (Host (Sym_SkyCoord (HStr ''12:34:56.7'') (HStr ''-01:02:03'') ''icrs''
                    (U_hourangle, U_deg)))"
  using to_tracking_radec_icrs
          [of "[''RA2000'' \<mapsto> HStr ''12:34:56.7'', ''DEC2000'' \<mapsto> HStr ''-01:02:03'']"
              "HStr ''12:34:56.7''" "HStr ''-01:02:03''" sym_host]
  by (simp add: sym_host_def)

section \<open>The end of the exposure\<close>

lemma to_exposure_time_fst:
  "fst (to_exposure_time H self) = first_result H (header self) (Trivial ''exposure_time'')"
  using trivial_accessor_fst [of H "''exposure_time''" self]
  by (simp add: to_exposure_time_def first_result_Trivial)

lemma to_exposure_time_value:
  assumes "fst (to_exposure_time H self) = Inr x"
  shows "\<exists>v q. header self ''EXPTIME'' = Some v \<and> Quantity H v U_s = Inr q \<and> x = Host q"
  using assms
  by (auto simp: to_exposure_time_def trivial_accessor_def trivial_map_def getitem_def
        split: option.splits sum.splits)

lemma lookups_header: "header (lookups H as (new_translator hdr)) = hdr"
  using lookups_invariant [of H hdr "new_translator hdr" as] by (simp add: cache_sound_def)

text \<open>
  C3. On one translator, in whatever state earlier lookups have left it: if
  \<open>to_datetime_begin\<close> returns \<open>b\<close> and \<open>to_exposure_time\<close> returns \<open>x\<close>, then
  \<open>to_datetime_end\<close> returns the host's \<open>b + x\<close>, whatever that is (a value or a
  raise), and nothing else. The duration \<open>x\<close> is the \<^verbatim>\<open>EXPTIME\<close> card with the unit
  of seconds attached.
\<close>

theorem to_datetime_end_is_begin_plus_exposure_time:
  assumes "fst (to_datetime_begin H (lookups H as (new_translator hdr))) = Inr b"
    and "fst (to_exposure_time H (lookups H as (new_translator hdr))) = Inr x"
  shows "fst (to_datetime_end H (lookups H as (new_translator hdr))) = py_add H b x
         \<and> (\<exists>v q. hdr ''EXPTIME'' = Some v \<and> Quantity H v U_s = Inr q \<and> x = Host q)"
proof -
  let ?s = "lookups H as (new_translator hdr)"
  have sound: "cache_sound H hdr ?s"
    using lookups_invariant [of H hdr "new_translator hdr" as] by simp
  have b: "first_result H hdr Datetime_begin = Inr b"
    using to_datetime_begin_fst [OF sound] assms(1) by simp
  have x: "fst (to_exposure_time H (new_translator hdr)) = Inr x"
    using assms(2) to_exposure_time_fst [of H ?s] to_exposure_time_fst [of H "new_translator hdr"]
    by (simp add: lookups_header)
  have "fst (to_datetime_end H ?s) = first_result H hdr Datetime_end"
    using sound by (rule to_datetime_end_fst)
  also have "\<dots> = py_add H b x"
    by (simp add: first_result_Datetime_end b x)
  finally have "fst (to_datetime_end H ?s) = py_add H b x" .
  moreover have "\<exists>v q. hdr ''EXPTIME'' = Some v \<and> Quantity H v U_s = Inr q \<and> x = Host q"
    using to_exposure_time_value [OF assms(2)] by (simp add: lookups_header)
  ultimately show ?thesis by simp
qed

text \<open>The definitions to unfold when a concrete header is run.\<close>

lemmas run_simps = to_datetime_end_def to_datetime_end_body_def to_datetime_begin_def
  to_datetime_begin_body_def to_tracking_radec_def to_tracking_radec_body_def
  to_instrument_def to_instrument_body_def to_telescope_def to_detector_name_def
  to_detector_name_body_def to_exposure_time_def trivial_accessor_def trivial_map_def
  cache_translation_def new_translator_def enter_def getitem_def sym_host_def
  py_slice_def py_slice_from_def py_eq_str_def Let_def

theorem to_datetime_end_is_begin_plus_exposure_time_witness:
  "fst (to_datetime_end sym_host
          (lookups sym_host [Datetime_begin]
             (new_translator [''DATE-OBS'' \<mapsto> HStr ''20200102'', ''EXPTIME'' \<mapsto> HInt 30])))
     = Inr (Host (Sym_add (Host (Sym_Time ''2020-01-02'' ''iso'' ''utc''))
                          (Host (Sym_Quantity (HInt 30) U_s))))"
  using to_datetime_end_is_begin_plus_exposure_time
          [of sym_host "[Datetime_begin]"
              "[''DATE-OBS'' \<mapsto> HStr ''20200102'', ''EXPTIME'' \<mapsto> HInt 30]"
              "Host (Sym_Time ''2020-01-02'' ''iso'' ''utc'')"
              "Host (Sym_Quantity (HInt 30) U_s)"]
  by (simp add: run_simps)

section \<open>The detector name\<close>

subsection \<open>Decimal numerals\<close>

lemma str_nat_digit: "n < 10 \<Longrightarrow> str_nat n = [digit_char n]"
  by (simp add: str_nat.simps)

lemma length_str_nat_pos: "1 \<le> length (str_nat n)"
  by (subst str_nat.simps) simp

lemma length_str_nat_one: "length (str_nat n) = 1 \<longleftrightarrow> n < 10"
proof
  assume one: "length (str_nat n) = 1"
  show "n < 10"
  proof (rule ccontr)
    assume "\<not> n < 10"
    then have "length (str_nat n) = length (str_nat (n div 10)) + 1"
      by (subst str_nat.simps) simp
    with length_str_nat_pos [of "n div 10"] one show False by simp
  qed
next
  assume "n < 10"
  then show "length (str_nat n) = 1" by (simp add: str_nat_digit)
qed

lemma length_str_nat_two: "length (str_nat n) \<le> 2 \<longleftrightarrow> n < 100"
proof (cases "n < 10")
  case True
  then show ?thesis by (simp add: str_nat_digit)
next
  case False
  then have "length (str_nat n) = length (str_nat (n div 10)) + 1"
    by (subst str_nat.simps) simp
  moreover have "length (str_nat (n div 10)) \<le> 1 \<longleftrightarrow> n div 10 < 10"
    using length_str_nat_one [of "n div 10"] length_str_nat_pos [of "n div 10"] by linarith
  moreover have "n div 10 < 10 \<longleftrightarrow> n < 100" by presburger
  ultimately show ?thesis by simp
qed

lemma digit_value_digit_char: "d < 10 \<Longrightarrow> digit_value (digit_char d) = d"
proof -
  assume "d < 10"
  then have "d \<in> {0, 1, 2, 3, 4, 5, 6, 7, 8, 9}" by auto
  then show ?thesis
    by (auto simp: digit_char_def digit_value_def)
qed

lemma decimal_value_str_nat: "decimal_value (str_nat n) = n"
proof (induction n rule: str_nat.induct)
  case (1 n)
  show ?case
  proof (cases "n < 10")
    case True
    then show ?thesis
      by (simp add: str_nat.simps [of n] decimal_value_def digit_value_digit_char)
  next
    case False
    with 1 have "decimal_value (str_nat (n div 10)) = n div 10" by simp
    with False show ?thesis
      by (simp add: str_nat.simps [of n] decimal_value_def digit_value_digit_char)
  qed
qed

lemma decimal_value_zero_pad: "decimal_value (zero_pad w s) = decimal_value s"
proof -
  have "foldl (\<lambda>acc c. 10 * acc + digit_value c) 0 (replicate k CHR ''0'') = 0" for k
    by (induction k) (simp_all add: digit_value_def)
  then show ?thesis by (simp add: decimal_value_def zero_pad_def)
qed

subsection \<open>The format \<^verbatim>\<open>02d\<close>\<close>

lemma length_zero_pad: "length (zero_pad w s) = max w (length s)"
  by (simp add: zero_pad_def)

lemma length_format_02d_int:
  "length (format_02d_int n) =
     (if n < 0 then 1 + length (str_nat (nat (- n))) else max 2 (length (str_nat (nat n))))"
  using length_str_nat_pos [of "nat (- n)"]
  by (simp add: format_02d_int_def length_zero_pad max_def)

lemma format_02d_int_two_chars:
  "length (format_02d_int n) = 2 \<longleftrightarrow> - 9 \<le> n \<and> n \<le> 99"
proof (cases "n < 0")
  case True
  then have "length (format_02d_int n) = 2 \<longleftrightarrow> nat (- n) < 10"
    using length_str_nat_one [of "nat (- n)"] by (simp add: length_format_02d_int)
  with True show ?thesis by auto
next
  case False
  have "max 2 k = 2 \<longleftrightarrow> k \<le> 2" for k :: nat by auto
  with False have "length (format_02d_int n) = 2 \<longleftrightarrow> nat n < 100"
    using length_str_nat_two [of "nat n"] by (simp add: length_format_02d_int)
  with False show ?thesis by auto
qed

lemma format_02d_int_min_width: "2 \<le> length (format_02d_int n)"
  using length_str_nat_pos [of "nat (- n)"] by (simp add: length_format_02d_int)

lemma format_02d_int_digit:
  "0 \<le> n \<Longrightarrow> n \<le> 9 \<Longrightarrow> format_02d_int n = [CHR ''0'', digit_char (nat n)]"
  by (simp add: format_02d_int_def zero_pad_def str_nat_digit)

lemma to_detector_name_new:
  "fst (to_detector_name (new_translator hdr)) =
     (case getitem hdr ''DETECTOR'' of
        Inl e \<Rightarrow> Inl e
      | Inr v \<Rightarrow> map_sum id (\<lambda>s. Plain (HStr s)) (format_02d v))"
  by (simp add: to_detector_name_def fst_cache_translation_miss to_detector_name_body_def
        Let_def split: sum.splits)

lemma decimal_value_format_02d_int: "0 \<le> n \<Longrightarrow> decimal_value (format_02d_int n) = nat n"
  by (simp add: format_02d_int_def decimal_value_zero_pad decimal_value_str_nat)

text \<open>
  C4, as amended. For every header whose \<^verbatim>\<open>DETECTOR\<close> value is an integer \<open>n\<close>,
  \<open>to_detector_name\<close> on a new translator returns \<open>n\<close> written in decimal and padded
  with zeros to a width of at least two: a number from 0 to 9 gives \<open>0\<close> followed by its
  digit (3 gives \<^verbatim>\<open>03\<close>), a number that is not negative gives a numeral that denotes
  it, the result never has fewer than two characters, and it has exactly two characters
  exactly when \<open>-9 \<le> n \<le> 99\<close>.
\<close>

theorem to_detector_name_zero_pads_to_min_width:
  assumes "hdr ''DETECTOR'' = Some (HInt n)"
  shows "fst (to_detector_name (new_translator hdr)) = Inr (Plain (HStr (format_02d_int n)))
         \<and> (0 \<le> n \<and> n \<le> 9 \<longrightarrow> format_02d_int n = [CHR ''0'', digit_char (nat n)])
         \<and> (0 \<le> n \<longrightarrow> decimal_value (format_02d_int n) = nat n)
         \<and> 2 \<le> length (format_02d_int n)
         \<and> (length (format_02d_int n) = 2 \<longleftrightarrow> - 9 \<le> n \<and> n \<le> 99)"
  using assms
  by (simp add: to_detector_name_new getitem_def format_02d_def format_02d_int_digit
        format_02d_int_min_width format_02d_int_two_chars decimal_value_format_02d_int)

theorem to_detector_name_zero_pads_to_min_width_witness:
  "fst (to_detector_name (new_translator [''DETECTOR'' \<mapsto> HInt 3] :: sym translator))
     = Inr (Plain (HStr ''03''))"
  using to_detector_name_zero_pads_to_min_width [of "[''DETECTOR'' \<mapsto> HInt 3]" 3]
  by (auto simp: digit_char_def)

text \<open>
  The claim as it was stated, that the name of every numeric identifier has exactly two
  characters, fails at the detector number 100: its name is \<^verbatim>\<open>100\<close>.
\<close>

theorem to_detector_name_three_characters:
  "fst (to_detector_name (new_translator [''DETECTOR'' \<mapsto> HInt 100] :: sym translator))
     = Inr (Plain (HStr ''100''))
   \<and> length ''100'' \<noteq> 2"
proof -
  have "str_nat 100 = ''100''"
    by (simp add: str_nat.simps [of 100] str_nat.simps [of 10] str_nat_digit digit_char_def)
  then show ?thesis
    by (simp add: to_detector_name_new getitem_def format_02d_def format_02d_int_def
          zero_pad_def)
qed

section \<open>The ingest configuration is consistent\<close>

lemma ingest_register:
  "visit (register (ingest c)) = [''visit'', ''ccd'', ''filter'', ''dateObs'', ''taiObs'']"
  "unique (register (ingest c)) = [''visit'', ''ccd'', ''filter'']"
  "keys (columns (register (ingest c))) =
     [''frameId'', ''visit'', ''ccd'', ''filter'', ''dataType'', ''expTime'', ''dateObs'',
      ''taiObs'', ''field'']"
  by (simp_all add: ingest_def keys_def Let_def)

text \<open>
  C6. Whatever the configuration was before the script ran, after it every key of the
  grouping list \<^verbatim>\<open>config.register.visit\<close> and of the uniqueness list
  \<^verbatim>\<open>config.register.unique\<close> is a key of the column schema
  \<^verbatim>\<open>config.register.columns\<close>.
\<close>

theorem register_keys_in_columns:
  "\<forall>k \<in> set (visit (register (ingest c))) \<union> set (unique (register (ingest c))).
      k \<in> set (keys (columns (register (ingest c))))"
  by (simp add: ingest_register)

theorem register_keys_in_columns_witness:
  "''taiObs'' \<in> set (visit (register (ingest empty_config)))
   \<and> ''taiObs'' \<in> set (keys (columns (register (ingest empty_config))))
   \<and> ''ccd'' \<in> set (unique (register (ingest empty_config)))
   \<and> ''ccd'' \<in> set (keys (columns (register (ingest empty_config))))"
  using register_keys_in_columns [of empty_config]
  by (simp add: ingest_register)

section \<open>A missing keyword\<close>

lemma to_datetime_begin_new:
  "fst (to_datetime_begin H (new_translator hdr)) = fst (to_datetime_begin_body H (new_translator hdr))"
  by (simp add: to_datetime_begin_def fst_cache_translation_miss)

lemma to_tracking_radec_new:
  "fst (to_tracking_radec H (new_translator hdr)) = fst (to_tracking_radec_body H (new_translator hdr))"
  by (simp add: to_tracking_radec_def fst_cache_translation_miss)

lemma to_instrument_new:
  "fst (to_instrument (new_translator hdr)) = fst (to_instrument_body (new_translator hdr))"
  by (simp add: to_instrument_def fst_cache_translation_miss)

text \<open>
  C7. On a new translator, an accessor whose keyword the header lacks raises
  \<open>KeyError\<close> for that keyword and returns nothing: \<^verbatim>\<open>DATE-OBS\<close> for
  \<open>to_datetime_begin\<close>; \<^verbatim>\<open>RA2000\<close>, or \<^verbatim>\<open>DEC2000\<close> when \<^verbatim>\<open>RA2000\<close>
  is there, for \<open>to_tracking_radec\<close>; \<^verbatim>\<open>DETECTOR\<close> for \<open>to_detector_name\<close>;
  \<^verbatim>\<open>INSTRUME\<close> for \<open>to_instrument\<close> (the \<^verbatim>\<open>Unknown\<close> branch is not a default
  for a missing key). None of the four properties has a constant in \<^verbatim>\<open>_const_map\<close>
  to fall back on.
\<close>

theorem missing_keyword_raises_KeyError:
  "(hdr ''DATE-OBS'' = None \<longrightarrow>
      fst (to_datetime_begin (H :: 'o host) (new_translator hdr)) = Inl (KeyError ''DATE-OBS''))
   \<and> (hdr ''RA2000'' = None \<longrightarrow>
      fst (to_tracking_radec H (new_translator hdr)) = Inl (KeyError ''RA2000''))
   \<and> (hdr ''RA2000'' \<noteq> None \<and> hdr ''DEC2000'' = None \<longrightarrow>
      fst (to_tracking_radec H (new_translator hdr)) = Inl (KeyError ''DEC2000''))
   \<and> (hdr ''DETECTOR'' = None \<longrightarrow>
      fst (to_detector_name (new_translator hdr :: 'o translator)) = Inl (KeyError ''DETECTOR''))
   \<and> (hdr ''INSTRUME'' = None \<longrightarrow>
      fst (to_instrument (new_translator hdr :: 'o translator)) = Inl (KeyError ''INSTRUME''))
   \<and> map_of const_map ''datetime_begin'' = None
   \<and> map_of const_map ''tracking_radec'' = None
   \<and> map_of const_map ''detector_name'' = None
   \<and> map_of const_map ''instrument'' = None"
proof -
  have "fst (to_datetime_begin H (new_translator hdr)) = Inl (KeyError ''DATE-OBS'')"
    if "hdr ''DATE-OBS'' = None"
    using that by (simp add: to_datetime_begin_new to_datetime_begin_body_def getitem_def Let_def)
  moreover have "fst (to_tracking_radec H (new_translator hdr)) = Inl (KeyError ''RA2000'')"
    if "hdr ''RA2000'' = None"
    using that by (simp add: to_tracking_radec_new to_tracking_radec_body_def getitem_def Let_def)
  moreover have "fst (to_tracking_radec H (new_translator hdr)) = Inl (KeyError ''DEC2000'')"
    if "hdr ''RA2000'' \<noteq> None" "hdr ''DEC2000'' = None"
    using that
    by (auto simp: to_tracking_radec_new to_tracking_radec_body_def getitem_def Let_def)
  moreover have "fst (to_detector_name (new_translator hdr :: 'o translator))
                   = Inl (KeyError ''DETECTOR'')"
    if "hdr ''DETECTOR'' = None"
    using that by (simp add: to_detector_name_new getitem_def)
  moreover have "fst (to_instrument (new_translator hdr :: 'o translator))
                   = Inl (KeyError ''INSTRUME'')"
    if "hdr ''INSTRUME'' = None"
    using that by (simp add: to_instrument_new to_instrument_body_def getitem_def Let_def)
  moreover have "map_of const_map ''datetime_begin'' = None"
    "map_of const_map ''tracking_radec'' = None"
    "map_of const_map ''detector_name'' = None"
    "map_of const_map ''instrument'' = None"
    by (simp_all add: const_map_def)
  ultimately show ?thesis by blast
qed

theorem missing_keyword_raises_KeyError_witness:
  "fst (to_datetime_begin sym_host (new_translator Map.empty)) = Inl (KeyError ''DATE-OBS'')
   \<and> fst (to_tracking_radec sym_host (new_translator Map.empty)) = Inl (KeyError ''RA2000'')
   \<and> fst (to_tracking_radec sym_host (new_translator [''RA2000'' \<mapsto> HStr ''12:34:56.7'']))
       = Inl (KeyError ''DEC2000'')
   \<and> fst (to_detector_name (new_translator Map.empty :: sym translator))
       = Inl (KeyError ''DETECTOR'')
   \<and> fst (to_instrument (new_translator Map.empty :: sym translator))
       = Inl (KeyError ''INSTRUME'')"
  using missing_keyword_raises_KeyError [of Map.empty sym_host]
        missing_keyword_raises_KeyError [of "[''RA2000'' \<mapsto> HStr ''12:34:56.7'']" sym_host]
  by simp

section \<open>The identifiers copied from the header\<close>

lemma trivial_accessor_plain:
  "map_of trivial_map p = Some (key, None) \<Longrightarrow>
   trivial_accessor H p self = (map_sum id Plain (getitem (header self) key), self)"
  by (simp add: trivial_accessor_def split: sum.splits)

text \<open>
  C9. In \<^verbatim>\<open>_trivial_map\<close> the properties \<^verbatim>\<open>exposure_id\<close>, \<^verbatim>\<open>visit_id\<close>,
  \<^verbatim>\<open>observation_id\<close> and \<^verbatim>\<open>detector_exposure_id\<close> all name the keyword
  \<^verbatim>\<open>RUN\<close>, with no unit, and \<^verbatim>\<open>detector_num\<close> and \<^verbatim>\<open>detector_serial\<close> both
  name \<^verbatim>\<open>DETECTOR\<close>. So for every header the four identifier accessors return the
  same thing, the \<^verbatim>\<open>RUN\<close> card as it is (or the same \<open>KeyError\<close>), and the two
  detector accessors return the \<^verbatim>\<open>DETECTOR\<close> card as it is; none of them changes
  the translator.
\<close>

theorem trivial_identifiers_are_copies:
  "map (map_of trivial_map)
     [''exposure_id'', ''visit_id'', ''observation_id'', ''detector_exposure_id'']
     = replicate 4 (Some (''RUN'', None))
   \<and> map (map_of trivial_map) [''detector_num'', ''detector_serial'']
     = replicate 2 (Some (''DETECTOR'', None))
   \<and> to_exposure_id H self = (map_sum id Plain (getitem (header self) ''RUN''), self)
   \<and> to_visit_id H self = to_exposure_id H self
   \<and> to_observation_id H self = to_exposure_id H self
   \<and> to_detector_exposure_id H self = to_exposure_id H self
   \<and> to_detector_num H self = (map_sum id Plain (getitem (header self) ''DETECTOR''), self)
   \<and> to_detector_serial H self = to_detector_num H self"
  by (simp add: to_exposure_id_def to_visit_id_def to_observation_id_def
        to_detector_exposure_id_def to_detector_num_def to_detector_serial_def
        trivial_accessor_plain trivial_map_def numeral_eq_Suc)

theorem trivial_identifiers_are_copies_witness:
  "fst (to_visit_id sym_host (new_translator [''RUN'' \<mapsto> HInt 1234, ''DETECTOR'' \<mapsto> HInt 3]))
     = Inr (Plain (HInt 1234))
   \<and> fst (to_detector_exposure_id sym_host
            (new_translator [''RUN'' \<mapsto> HInt 1234, ''DETECTOR'' \<mapsto> HInt 3]))
     = Inr (Plain (HInt 1234))
   \<and> fst (to_detector_serial sym_host
            (new_translator [''RUN'' \<mapsto> HInt 1234, ''DETECTOR'' \<mapsto> HInt 3]))
     = Inr (Plain (HInt 3))
   \<and> fst (to_observation_id sym_host (new_translator Map.empty)) = Inl (KeyError ''RUN'')"
  using trivial_identifiers_are_copies
          [of sym_host "new_translator [''RUN'' \<mapsto> HInt 1234, ''DETECTOR'' \<mapsto> HInt 3]"]
        trivial_identifiers_are_copies [of sym_host "new_translator Map.empty"]
  by (simp add: getitem_def)

section \<open>The instrument of an accepted header\<close>

text \<open>
  C10. For every header that \<open>can_translate\<close> accepts, \<open>to_instrument\<close> on a new
  translator returns \<^verbatim>\<open>NeCam\<close>; it does not return \<^verbatim>\<open>Unknown\<close>, so that branch
  is not reached.
\<close>

theorem accepted_header_is_NeCam:
  assumes "can_translate hdr filename = Inr True"
  shows "fst (to_instrument (new_translator hdr)) = Inr (Plain (HStr ''NeCam''))
         \<and> fst (to_instrument (new_translator hdr)) \<noteq> Inr (Plain (HStr ''Unknown''))"
proof -
  from assms have "hdr ''INSTRUME'' = Some (HStr ''NECAM'')"
    by (auto simp: can_translate_def contains_def getitem_def py_eq_str_def
          split: if_splits option.splits hval.splits)
  then show ?thesis
    by (simp add: to_instrument_new to_instrument_body_def getitem_def py_eq_str_def Let_def)
qed

theorem accepted_header_is_NeCam_witness:
  "can_translate [''INSTRUME'' \<mapsto> HStr ''NECAM''] None = Inr True
   \<and> fst (to_instrument (new_translator [''INSTRUME'' \<mapsto> HStr ''NECAM''] :: sym translator))
       = Inr (Plain (HStr ''NeCam''))"
proof -
  have accepted: "can_translate [''INSTRUME'' \<mapsto> HStr ''NECAM''] None = Inr True"
    by (simp add: can_translate_def contains_def getitem_def py_eq_str_def)
  have "fst (to_instrument (new_translator [''INSTRUME'' \<mapsto> HStr ''NECAM''] :: sym translator))
          = Inr (Plain (HStr ''NeCam''))"
    using accepted_header_is_NeCam [OF accepted] by (rule conjunct1)
  with accepted show ?thesis by simp
qed

section \<open>Memoization\<close>

text \<open>
  C8, as amended. On the translator made for a header, after any sequence of lookups:
  every lookup of any property returns what the first lookup of that property on a new
  translator returns, so repeated lookups agree; the body of a method the source
  decorates (\<open>to_datetime_begin\<close>, \<open>to_datetime_end\<close>, \<open>to_tracking_radec\<close>,
  \<open>to_instrument\<close>, \<open>to_detector_name\<close>) has been entered at most once if its
  derivation returns a value; and \<open>to_telescope\<close> returns what \<open>to_instrument\<close>
  returns.
\<close>

theorem memoized_lookups_consistent:
  "fst (perform H a (lookups H as (new_translator hdr))) = first_result H hdr a
   \<and> (b \<in> set decorated \<longrightarrow> \<not> isl (first_result H hdr b) \<longrightarrow>
        count_list (invoked (lookups H as (new_translator hdr))) (method_name b) \<le> 1)
   \<and> first_result H hdr Telescope = first_result H hdr Instrument"
proof -
  let ?s = "lookups H as (new_translator hdr)"
  have inv: "cache_sound H hdr ?s" "entered_once H hdr ?s"
    using lookups_invariant [of H hdr "new_translator hdr" as] by simp_all
  have "count_list (invoked ?s) (method_name b) \<le> 1"
    if "b \<in> set decorated" "\<not> isl (first_result H hdr b)"
    using that entered_at_most_once [OF inv(2), of b]
    by (cases "first_result H hdr b") simp_all
  moreover have "fst (perform H a ?s) = first_result H hdr a"
    using inv by (rule perform_invariant)
  ultimately show ?thesis by (simp add: first_result_Telescope)
qed

theorem memoized_lookups_consistent_witness:
  "fst (perform sym_host Datetime_end
         (lookups sym_host [Telescope, Datetime_end, Datetime_begin, Datetime_end]
            (new_translator [''DATE-OBS'' \<mapsto> HStr ''20200102'', ''EXPTIME'' \<mapsto> HInt 30])))
     = Inr (Host (Sym_add (Host (Sym_Time ''2020-01-02'' ''iso'' ''utc''))
                          (Host (Sym_Quantity (HInt 30) U_s))))
   \<and> count_list
        (invoked (lookups sym_host [Telescope, Datetime_end, Datetime_begin, Datetime_end]
           (new_translator [''DATE-OBS'' \<mapsto> HStr ''20200102'', ''EXPTIME'' \<mapsto> HInt 30])))
        ''to_datetime_end'' \<le> 1"
proof -
  let ?hdr = "[''DATE-OBS'' \<mapsto> HStr ''20200102'', ''EXPTIME'' \<mapsto> HInt 30]"
  have first: "first_result sym_host ?hdr Datetime_end
                 = Inr (Host (Sym_add (Host (Sym_Time ''2020-01-02'' ''iso'' ''utc''))
                                      (Host (Sym_Quantity (HInt 30) U_s))))"
    by (simp add: first_result_def run_simps)
  from memoized_lookups_consistent
         [of sym_host Datetime_end "[Telescope, Datetime_end, Datetime_begin, Datetime_end]"
             ?hdr Datetime_end] first
  show ?thesis by simp
qed

text \<open>
  The claim as it was stated counts \<open>to_telescope\<close> among the memoized accessors. The
  source does not decorate it: two lookups enter its body twice, and nothing is cached
  under its name.
\<close>

theorem to_telescope_entered_twice:
  "count_list
     (invoked (lookups sym_host [Telescope, Telescope]
                 (new_translator [''INSTRUME'' \<mapsto> HStr ''NECAM''])))
     ''to_telescope'' = 2
   \<and> translation_cache
        (lookups sym_host [Telescope, Telescope]
           (new_translator [''INSTRUME'' \<mapsto> HStr ''NECAM'']))
        ''to_telescope'' = None"
  by (simp add: run_simps)

text \<open>
  A derivation that raises leaves nothing in the cache, so the next lookup enters it
  again: here \<^verbatim>\<open>DATE-OBS\<close> is missing.
\<close>

lemma raising_derivation_entered_again:
  "count_list
     (invoked (lookups sym_host [Datetime_begin, Datetime_begin] (new_translator Map.empty)))
     ''to_datetime_begin'' = 2"
  by (simp add: run_simps)

end
